theory Spec2Isabelle
  imports Complex_Main "HOL-Library.Sublist"
begin

section \<open>The documentation workflow as data\<close>

text \<open>
  The file \<^verbatim>\<open>.github/workflows/generate-documentation.yml\<close> is a declarative
  description of one job. It is embedded key by key: a trigger, a step and the job are
  records, the expressions between \<^verbatim>\<open>${{\<close> and \<^verbatim>\<open>}}\<close> are syntax trees, and a
  value that mixes text with expressions is a list of parts.

  Only two shapes of expression occur in the file. String-valued ones are a literal, a
  property of a context (\<^verbatim>\<open>github.event_name\<close> is the path
  \<open>[''github'', ''event_name'']\<close>) and \<^verbatim>\<open>a || b\<close> between strings, which yields
  \<^verbatim>\<open>a\<close> unless \<^verbatim>\<open>a\<close> is empty. Boolean ones are \<^verbatim>\<open>a == b\<close> between strings and
  \<^verbatim>\<open>p || q\<close> between comparisons. No expression of the file calls a function, so
  the syntax has no constructor for \<^verbatim>\<open>always()\<close>, \<^verbatim>\<open>failure()\<close> and the like.
\<close>

type_synonym path = "string list"

datatype sexpr =
    Lit string
  | Ctx path
  | OrS sexpr sexpr

datatype bexpr =
    Eq sexpr sexpr
  | OrB bexpr bexpr

datatype part = Text string | Interp sexpr

type_synonym template = "part list"

record trigger =
  trig_event :: string
  trig_types :: "string list option"
  trig_branches :: "string list option"

record concurrency =
  group :: template
  cancel_in_progress :: bool

record step =
  step_name :: template
  uses :: "string option"
  with_args :: "(string \<times> template) list"
  env :: "(string \<times> template) list"
  run :: "string list option"
  cond :: "bexpr option"
  continue_on_error :: "bool option"
  timeout_minutes :: "nat option"

record job =
  job_permissions :: "(string \<times> string) list"
  runs_on :: string
  default_shell :: string
  fail_fast :: "bool option"
  matrix :: "(string \<times> string list) list"
  steps :: "step list"

record workflow =
  wf_name :: string
  on_events :: "trigger list"
  wf_concurrency :: concurrency
  wf_permissions :: "(string \<times> string) list"
  jobs :: "(string \<times> job) list"

text \<open>A step as the file writes most of them: every optional key absent.\<close>

definition plain_step :: "template \<Rightarrow> step" where
  "plain_step n =
     \<lparr>step_name = n, uses = None, with_args = [], env = [], run = None, cond = None,
      continue_on_error = None, timeout_minutes = None\<rparr>"

definition event_name_is :: "string \<Rightarrow> bexpr" where
  "event_name_is e = Eq (Ctx [''github'', ''event_name'']) (Lit e)"

definition release_or_push :: bexpr where
  "release_or_push = OrB (event_name_is ''release'') (event_name_is ''push'')"

definition docs_checkout_args :: "(string \<times> template) list" where
  "docs_checkout_args =
     [(''fetch-depth'', [Text ''1'']),
      (''repository'', [Text ''statsmodels/statsmodels.github.io'']),
      (''path'', [Text ''statsmodels.github.io''])]"

text \<open>The twelve steps of the job \<^verbatim>\<open>build\<close>, in the order of the file (lines 32 to 88).\<close>

definition checkout_step :: step where
  "checkout_step = (plain_step [Text ''Checkout''])
     \<lparr>uses := Some ''actions/checkout@v4'',
      with_args := [(''fetch-depth'', [Text ''0''])]\<rparr>"

definition checkout_without_token :: step where
  "checkout_without_token =
     (plain_step [Text ''Checkout statsmodels.github.io without token''])
     \<lparr>uses := Some ''actions/checkout@v4'',
      with_args := docs_checkout_args,
      cond := Some (event_name_is ''pull_request'')\<rparr>"

definition checkout_with_token :: step where
  "checkout_with_token =
     (plain_step [Text ''Checkout statsmodels.github.io with token''])
     \<lparr>uses := Some ''actions/checkout@v4'',
      with_args := docs_checkout_args @
        [(''token'', [Interp (Ctx [''secrets'', ''DOCBUILD_TOKEN''])])],
      cond := Some release_or_push\<rparr>"

definition event_type_step :: step where
  "event_type_step = (plain_step [Text ''Event type''])
     \<lparr>env := [(''EVENT_TYPE'', [Interp (Ctx [''github'', ''event_name''])])],
      run := Some [''echo $EVENT_TYPE'']\<rparr>"

definition install_pandoc :: step where
  "install_pandoc = (plain_step [Text ''Install pandoc''])
     \<lparr>uses := Some ''r-lib/actions/setup-pandoc@v2''\<rparr>"

definition install_graphviz :: step where
  "install_graphviz = (plain_step [Text ''Install graphviz''])
     \<lparr>uses := Some ''ts-graphviz/setup-graphviz@v2''\<rparr>"

definition set_up_python :: step where
  "set_up_python =
     (plain_step [Text ''Set up Python '', Interp (Ctx [''matrix'', ''python-version''])])
     \<lparr>uses := Some ''actions/setup-python@v5'',
      with_args := [(''python-version'', [Interp (Ctx [''matrix'', ''python-version''])]),
                    (''cache'', [Text ''pip''])]\<rparr>"

definition install_dependencies :: step where
  "install_dependencies = (plain_step [Text ''Install dependencies''])
     \<lparr>run := Some
        [''python -m pip install --upgrade pip wheel setuptools'',
         ''python -m pip install -r requirements.txt'',
         ''python -m pip install -r requirements-dev.txt'',
         ''python -m pip install -r requirements-doc.txt'',
         ''python -m pip list'']\<rparr>"

definition install_statsmodels :: step where
  "install_statsmodels = (plain_step [Text ''Install statsmodels''])
     \<lparr>run := Some [''python -m pip install . -vv'']\<rparr>"

definition build_documentation :: step where
  "build_documentation = (plain_step [Text ''Build documentation''])
     \<lparr>run := Some [''pushd docs'', ''make html'', ''popd'']\<rparr>"

definition move_and_commit :: step where
  "move_and_commit = (plain_step [Text ''Move and commit documentation''])
     \<lparr>env := [(''GIT_TAG'',
               [Interp (Ctx [''github'', ''event'', ''release'', ''tag_name''])])],
      run := Some [''source tools/ci/docbuild-commit.sh'']\<rparr>"

definition push_changes :: step where
  "push_changes = (plain_step [Text ''Push changes''])
     \<lparr>env := [(''PERSONAL_ACCESS_TOKEN'', [Interp (Ctx [''secrets'', ''DOCBUILD_TOKEN''])])],
      run := Some [''source tools/ci/docbuild-push.sh''],
      cond := Some release_or_push\<rparr>"

definition build :: job where
  "build =
     \<lparr>job_permissions = [(''contents'', ''write'')],
      runs_on = ''ubuntu-latest'',
      default_shell = ''bash'',
      fail_fast = Some False,
      matrix = [(''python-version'', [''3.10''])],
      steps =
        [checkout_step, checkout_without_token, checkout_with_token, event_type_step,
         install_pandoc, install_graphviz, set_up_python, install_dependencies,
         install_statsmodels, build_documentation, move_and_commit, push_changes]\<rparr>"

definition generate_documentation :: workflow where
  "generate_documentation =
     \<lparr>wf_name = ''Generate Documentation'',
      on_events =
        [\<lparr>trig_event = ''release'', trig_types = Some [''published''], trig_branches = None\<rparr>,
         \<lparr>trig_event = ''push'', trig_types = None, trig_branches = Some [''main'']\<rparr>,
         \<lparr>trig_event = ''pull_request'', trig_types = None, trig_branches = None\<rparr>],
      wf_concurrency =
        \<lparr>group =
           [Interp (Ctx [''github'', ''workflow'']), Text ''-'',
            Interp (OrS (Ctx [''github'', ''head_ref'']) (Ctx [''github'', ''run_id'']))],
         cancel_in_progress = True\<rparr>,
      wf_permissions = [],
      jobs = [(''build'', build)]\<rparr>"

section \<open>A run of the workflow\<close>

text \<open>
  What the platform hands to one run: the name of the event and its activity type, the
  ref the event is about, the head ref (the source branch of a pull request, and the
  empty string on every event that is not about a pull request), the identifier of the
  run, the tag of the release (empty unless the event is a release), the value of the
  repository secret and the matrix entry of the job.
\<close>

record run_info =
  event_name :: string
  action :: string
  ref :: string
  head_ref :: string
  run_id :: string
  release_tag_name :: string
  docbuild_token :: string
  python_version :: string

text \<open>A property that a context does not have reads as the empty string.\<close>

definition lookup :: "workflow \<Rightarrow> run_info \<Rightarrow> path \<Rightarrow> string" where
  "lookup w r p =
     (if p = [''github'', ''workflow''] then wf_name w
      else if p = [''github'', ''event_name''] then event_name r
      else if p = [''github'', ''head_ref''] then head_ref r
      else if p = [''github'', ''run_id''] then run_id r
      else if p = [''github'', ''ref''] then ref r
      else if p = [''github'', ''event'', ''action''] then action r
      else if p = [''github'', ''event'', ''release'', ''tag_name''] then release_tag_name r
      else if p = [''secrets'', ''DOCBUILD_TOKEN''] then docbuild_token r
      else if p = [''matrix'', ''python-version''] then python_version r
      else [])"

text \<open>
  Comparison is between the two strings. (The platform compares without regard to case;
  the event names it delivers and the literals of this file are all in lower case.)
\<close>

fun eval_s :: "workflow \<Rightarrow> run_info \<Rightarrow> sexpr \<Rightarrow> string" where
  "eval_s w r (Lit s) = s"
| "eval_s w r (Ctx p) = lookup w r p"
| "eval_s w r (OrS a b) = (if eval_s w r a \<noteq> [] then eval_s w r a else eval_s w r b)"

fun eval_b :: "workflow \<Rightarrow> run_info \<Rightarrow> bexpr \<Rightarrow> bool" where
  "eval_b w r (Eq a b) = (eval_s w r a = eval_s w r b)"
| "eval_b w r (OrB p q) = (eval_b w r p \<or> eval_b w r q)"

fun render_part :: "workflow \<Rightarrow> run_info \<Rightarrow> part \<Rightarrow> string" where
  "render_part w r (Text s) = s"
| "render_part w r (Interp e) = eval_s w r e"

definition render :: "workflow \<Rightarrow> run_info \<Rightarrow> template \<Rightarrow> string" where
  "render w r t = concat (map (render_part w r) t)"

text \<open>
  A step without \<^verbatim>\<open>if\<close> is not held back by the event; a step with one is admitted
  exactly when its condition evaluates to true. (The runner adds its own check that no
  earlier step has failed; that check is the same for every step of this file, since
  none of the conditions mentions a status function.)
\<close>

definition step_runs :: "workflow \<Rightarrow> run_info \<Rightarrow> step \<Rightarrow> bool" where
  "step_runs w r st = (case cond st of None \<Rightarrow> True | Some c \<Rightarrow> eval_b w r c)"

text \<open>
  A step is known by the literal text of its name (the step that sets up Python has the
  version appended when the name is rendered). \<open>executed\<close> lists, in the order of the
  job, the steps that the event of a run admits.
\<close>

definition label :: "step \<Rightarrow> string" where
  "label st = concat (map (\<lambda>p. case p of Text s \<Rightarrow> s | Interp e \<Rightarrow> []) (step_name st))"

definition find_step :: "job \<Rightarrow> string \<Rightarrow> step option" where
  "find_step j n = find (\<lambda>st. label st = n) (steps j)"

definition executed :: "workflow \<Rightarrow> job \<Rightarrow> run_info \<Rightarrow> string list" where
  "executed w j r = map label (filter (step_runs w r) (steps j))"

text \<open>
  The context of three typical runs. Only a pull request has a head ref; only a release
  has a tag. The secret is a parameter: a pull request from a fork receives none.
\<close>

definition push_run :: "string \<Rightarrow> string \<Rightarrow> string \<Rightarrow> run_info" where
  "push_run branch rid tok =
     \<lparr>event_name = ''push'', action = [], ref = ''refs/heads/'' @ branch, head_ref = [],
      run_id = rid, release_tag_name = [], docbuild_token = tok, python_version = ''3.10''\<rparr>"

definition pull_request_run :: "string \<Rightarrow> string \<Rightarrow> string \<Rightarrow> string \<Rightarrow> run_info" where
  "pull_request_run number branch rid tok =
     \<lparr>event_name = ''pull_request'', action = ''synchronize'',
      ref = ''refs/pull/'' @ number @ ''/merge'', head_ref = branch,
      run_id = rid, release_tag_name = [], docbuild_token = tok, python_version = ''3.10''\<rparr>"

definition release_run :: "string \<Rightarrow> string \<Rightarrow> string \<Rightarrow> run_info" where
  "release_run tag rid tok =
     \<lparr>event_name = ''release'', action = ''published'', ref = ''refs/tags/'' @ tag,
      head_ref = [], run_id = rid, release_tag_name = tag, docbuild_token = tok,
      python_version = ''3.10''\<rparr>"

text \<open>
  Triggers. An event starts the workflow when one entry under \<^verbatim>\<open>on\<close> has its name
  and passes the filters the entry writes down: \<^verbatim>\<open>types\<close> lists the admitted activity
  types, \<^verbatim>\<open>branches\<close> the admitted branches (the patterns of this file contain no
  wildcard, so a pattern admits the branch of that name only). An entry without a filter
  admits what the file leaves open.
\<close>

definition trigger_matches :: "trigger \<Rightarrow> run_info \<Rightarrow> bool" where
  "trigger_matches t r \<longleftrightarrow>
     event_name r = trig_event t \<and>
     (case trig_types t of None \<Rightarrow> True | Some ts \<Rightarrow> action r \<in> set ts) \<and>
     (case trig_branches t of None \<Rightarrow> True
      | Some bs \<Rightarrow> ref r \<in> set (map (\<lambda>b. ''refs/heads/'' @ b) bs))"

definition starts :: "workflow \<Rightarrow> run_info \<Rightarrow> bool" where
  "starts w r = list_ex (\<lambda>t. trigger_matches t r) (on_events w)"

text \<open>
  Concurrency. Runs whose rendered group is the same string belong together; with
  \<^verbatim>\<open>cancel-in-progress\<close> a newly queued run cancels the run of its group that is in
  flight.
\<close>

definition concurrency_group :: "workflow \<Rightarrow> run_info \<Rightarrow> string" where
  "concurrency_group w r = render w r (group (wf_concurrency w))"

definition cancels :: "workflow \<Rightarrow> run_info \<Rightarrow> run_info \<Rightarrow> bool" where
  "cancels w new old \<longleftrightarrow>
     cancel_in_progress (wf_concurrency w) \<and> concurrency_group w new = concurrency_group w old"

text \<open>The context properties an expression, a template, a step and the workflow read.\<close>

fun refs_s :: "sexpr \<Rightarrow> path list" where
  "refs_s (Lit s) = []"
| "refs_s (Ctx p) = [p]"
| "refs_s (OrS a b) = refs_s a @ refs_s b"

fun refs_b :: "bexpr \<Rightarrow> path list" where
  "refs_b (Eq a b) = refs_s a @ refs_s b"
| "refs_b (OrB p q) = refs_b p @ refs_b q"

fun refs_part :: "part \<Rightarrow> path list" where
  "refs_part (Text s) = []"
| "refs_part (Interp e) = refs_s e"

definition refs_t :: "template \<Rightarrow> path list" where
  "refs_t t = concat (map refs_part t)"

text \<open>
  What a step hands to its action or script: the entries of \<^verbatim>\<open>with\<close> and of
  \<^verbatim>\<open>env\<close>. \<open>supplied p st\<close> lists the keys of the step whose value reads \<open>p\<close>.
\<close>

definition step_inputs :: "step \<Rightarrow> path list" where
  "step_inputs st = concat (map (\<lambda>kv. refs_t (snd kv)) (with_args st @ env st))"

definition supplied :: "path \<Rightarrow> step \<Rightarrow> string list" where
  "supplied p st =
     map fst (filter (\<lambda>kv. p \<in> set (refs_t (snd kv))) (with_args st @ env st))"

definition suppliers :: "path \<Rightarrow> job \<Rightarrow> (string \<times> string list) list" where
  "suppliers p j =
     map (\<lambda>st. (label st, supplied p st)) (filter (\<lambda>st. supplied p st \<noteq> []) (steps j))"

definition step_refs :: "step \<Rightarrow> path list" where
  "step_refs st =
     refs_t (step_name st) @ step_inputs st @
     (case cond st of None \<Rightarrow> [] | Some c \<Rightarrow> refs_b c)"

definition workflow_refs :: "workflow \<Rightarrow> path list" where
  "workflow_refs w =
     refs_t (group (wf_concurrency w)) @
     concat (map (\<lambda>nj. concat (map step_refs (steps (snd nj)))) (jobs w))"

section \<open>The seasonal-term simulator of the unobserved-components notebook\<close>

text \<open>
  \<^verbatim>\<open>simulate_seasonal_term(periodicity, total_cycles, noise_std=1.0, harmonics=None)\<close>
  of \<^verbatim>\<open>examples/notebooks/robust_models_1.ipynb\<close>.

  The two numeric arguments are Python numbers: an \<^verbatim>\<open>int\<close>, of any size, or a
  \<^verbatim>\<open>float\<close>, a double that is finite, infinite or not a number. (The notebook calls
  the function with an \<^verbatim>\<open>int\<close> periodicity and a \<^verbatim>\<open>float\<close> number of cycles.)
\<close>

text \<open>
  \<open>Finite x\<close> is the double whose value is \<open>x\<close> (the two zeros are one value here);
  which reals are the value of a double is left open, so what holds for every \<open>x\<close> holds
  for every double.
\<close>

datatype double = Finite real | PosInf | NegInf | NaN

datatype num = PyInt int | PyFloat double

datatype error = AssertionError | ZeroDivisionError | ValueError | OverflowError | MemoryError

text \<open>
  What the function takes from the machine it runs on is a parameter, so that nothing is
  assumed about it: how the result of a floating-point operation is rounded (and whether
  it overflows to an infinity), which integers are too large to become a \<^verbatim>\<open>float\<close>
  (\<open>None\<close> stands for the \<^verbatim>\<open>OverflowError\<close> of the conversion and of the true
  division of integers), and which array sizes the array constructors refuse, with which
  error. Everything below is defined, and proved, for every such machine.
\<close>

record machine =
  float_of_int :: "int \<Rightarrow> double option"
  int_truediv :: "int \<Rightarrow> int \<Rightarrow> double option"
  fmul :: "double \<Rightarrow> double \<Rightarrow> double"
  fadd :: "double \<Rightarrow> double \<Rightarrow> double"
  fdiv :: "double \<Rightarrow> double \<Rightarrow> double"
  fcos :: "double \<Rightarrow> double"
  fsin :: "double \<Rightarrow> double"
  fsum :: "double list \<Rightarrow> double"
  fpi :: double
  alloc :: "nat \<Rightarrow> error option"

text \<open>Negation is exact.\<close>

fun fneg :: "double \<Rightarrow> double" where
  "fneg (Finite x) = Finite (- x)"
| "fneg PosInf = NegInf"
| "fneg NegInf = PosInf"
| "fneg NaN = NaN"

text \<open>\<^verbatim>\<open>float(x)\<close>: an integer is converted, and may be too large.\<close>

fun to_float :: "machine \<Rightarrow> num \<Rightarrow> error + double" where
  "to_float m (PyInt n) =
     (case float_of_int m n of None \<Rightarrow> Inl OverflowError | Some f \<Rightarrow> Inr f)"
| "to_float m (PyFloat f) = Inr f"

text \<open>
  \<^verbatim>\<open>a * b\<close>: exact between two integers, and the floating-point product of the two
  operands as floats otherwise.
\<close>

fun py_mul :: "machine \<Rightarrow> num \<Rightarrow> num \<Rightarrow> error + num" where
  "py_mul m (PyInt a) (PyInt b) = Inr (PyInt (a * b))"
| "py_mul m (PyInt a) (PyFloat y) =
     (case to_float m (PyInt a) of Inl e \<Rightarrow> Inl e | Inr x \<Rightarrow> Inr (PyFloat (fmul m x y)))"
| "py_mul m (PyFloat x) b =
     (case to_float m b of Inl e \<Rightarrow> Inl e | Inr y \<Rightarrow> Inr (PyFloat (fmul m x y)))"

text \<open>
  \<^verbatim>\<open>int(x)\<close> drops the fractional part of a finite float, towards zero, and raises
  \<^verbatim>\<open>OverflowError\<close> on an infinity and \<^verbatim>\<open>ValueError\<close> on a NaN.
\<close>

definition trunc :: "real \<Rightarrow> int" where
  "trunc x = (if 0 \<le> x then \<lfloor>x\<rfloor> else \<lceil>x\<rceil>)"

fun py_int :: "num \<Rightarrow> error + int" where
  "py_int (PyInt n) = Inr n"
| "py_int (PyFloat (Finite x)) = Inr (trunc x)"
| "py_int (PyFloat PosInf) = Inl OverflowError"
| "py_int (PyFloat NegInf) = Inl OverflowError"
| "py_int (PyFloat NaN) = Inl ValueError"

text \<open>\<^verbatim>\<open>x == n\<close> for an integer \<open>n\<close> compares the exact values.\<close>

fun eq_int :: "num \<Rightarrow> int \<Rightarrow> bool" where
  "eq_int (PyInt k) n = (k = n)"
| "eq_int (PyFloat (Finite x)) n = (x = real_of_int n)"
| "eq_int (PyFloat PosInf) n = False"
| "eq_int (PyFloat NegInf) n = False"
| "eq_int (PyFloat NaN) n = False"

text \<open>
  The first three lines of the body:
  \<^verbatim>\<open>duration = periodicity * total_cycles\<close>,
  \<^verbatim>\<open>assert duration == int(duration)\<close> and \<^verbatim>\<open>duration = int(duration)\<close>.
  The result is \<open>Inr\<close> exactly when the assertion passes.
\<close>

definition checked_duration :: "machine \<Rightarrow> num \<Rightarrow> num \<Rightarrow> error + int" where
  "checked_duration m periodicity total_cycles =
     (case py_mul m periodicity total_cycles of
        Inl e \<Rightarrow> Inl e
      | Inr duration \<Rightarrow>
          (case py_int duration of
             Inl e \<Rightarrow> Inl e
           | Inr n \<Rightarrow> if eq_int duration n then Inr n else Inl AssertionError))"





text \<open>
  The generator behind \<^verbatim>\<open>np.random.randn\<close> is a stream of draws and the position
  of the next one; every call returns the draw and the generator moved on.
\<close>

type_synonym rng = "(nat \<Rightarrow> double) \<times> nat"

definition randn :: "rng \<Rightarrow> double \<times> rng" where
  "randn g = (fst g (snd g), (fst g, Suc (snd g)))"



text \<open>
  The inner loop \<^verbatim>\<open>for j in range(1, harmonics + 1)\<close>: it fills position \<open>j - 1\<close> of
  the two fresh arrays from the same position of the current ones, with one draw each.
  Both arrays have \<open>harmonics\<close> entries, so every index is in range. (The index \<open>j\<close> is
  at most the size of an array that exists, and so becomes a float without rounding.)
\<close>

fun harmonics_loop ::
  "machine \<Rightarrow> double \<Rightarrow> double \<Rightarrow> double list \<Rightarrow> double list \<Rightarrow> nat list \<Rightarrow>
   double list \<Rightarrow> double list \<Rightarrow> rng \<Rightarrow> double list \<times> double list \<times> rng" where
  "harmonics_loop m lambda_p noise_std gamma_jt gamma_star_jt []
     gamma_jtp1 gamma_star_jtp1 g = (gamma_jtp1, gamma_star_jtp1, g)"
| "harmonics_loop m lambda_p noise_std gamma_jt gamma_star_jt (j # js)
     gamma_jtp1 gamma_star_jtp1 g =
     (let cos_j = fcos m (fmul m lambda_p (Finite (real j)));
          sin_j = fsin m (fmul m lambda_p (Finite (real j)));
          (e1, g1) = randn g;
          gamma_jtp1 = gamma_jtp1[j - 1 :=
            fadd m (fadd m (fmul m (gamma_jt ! (j - 1)) cos_j)
                           (fmul m (gamma_star_jt ! (j - 1)) sin_j))
                   (fmul m noise_std e1)];
          (e2, g2) = randn g1;
          gamma_star_jtp1 = gamma_star_jtp1[j - 1 :=
            fadd m (fadd m (fmul m (fneg (gamma_jt ! (j - 1))) sin_j)
                           (fmul m (gamma_star_jt ! (j - 1)) cos_j))
                   (fmul m noise_std e2)]
      in harmonics_loop m lambda_p noise_std gamma_jt gamma_star_jt js
           gamma_jtp1 gamma_star_jtp1 g2)"











section \<open>Which steps run on which event\<close>

lemmas step_defs = plain_step_def checkout_step_def checkout_without_token_def
  checkout_with_token_def event_type_step_def install_pandoc_def install_graphviz_def
  set_up_python_def install_dependencies_def install_statsmodels_def build_documentation_def
  move_and_commit_def push_changes_def docs_checkout_args_def

lemma label_simps:
  "label checkout_step = ''Checkout''"
  "label checkout_without_token = ''Checkout statsmodels.github.io without token''"
  "label checkout_with_token = ''Checkout statsmodels.github.io with token''"
  "label event_type_step = ''Event type''"
  "label install_pandoc = ''Install pandoc''"
  "label install_graphviz = ''Install graphviz''"
  "label set_up_python = ''Set up Python ''"
  "label install_dependencies = ''Install dependencies''"
  "label install_statsmodels = ''Install statsmodels''"
  "label build_documentation = ''Build documentation''"
  "label move_and_commit = ''Move and commit documentation''"
  "label push_changes = ''Push changes''"
  by (simp_all add: label_def step_defs)

lemma labels_build:
  "map label (steps build) =
     [''Checkout'', ''Checkout statsmodels.github.io without token'',
      ''Checkout statsmodels.github.io with token'', ''Event type'', ''Install pandoc'',
      ''Install graphviz'', ''Set up Python '', ''Install dependencies'',
      ''Install statsmodels'', ''Build documentation'', ''Move and commit documentation'',
      ''Push changes'']"
  by (simp add: build_def label_simps)

lemma find_push_changes: "find_step build ''Push changes'' = Some push_changes"
  by (simp add: find_step_def build_def label_simps)

lemma find_move_and_commit:
  "find_step build ''Move and commit documentation'' = Some move_and_commit"
  by (simp add: find_step_def build_def label_simps)

lemma release_or_push_iff:
  "eval_b w r release_or_push \<longleftrightarrow> event_name r = ''release'' \<or> event_name r = ''push''"
  by (simp add: release_or_push_def event_name_is_def lookup_def)

text \<open>
  C1. The step \<^verbatim>\<open>Push changes\<close> is the last step of the job \<^verbatim>\<open>build\<close>, and for every
  run it is admitted if and only if the event of the run is a release or a push. On a
  pull request it is never admitted.
\<close>

theorem push_changes_iff_release_or_push:
  "find_step build ''Push changes'' = Some push_changes \<and>
   last (steps build) = push_changes \<and>
   (step_runs generate_documentation r push_changes \<longleftrightarrow>
      event_name r = ''release'' \<or> event_name r = ''push'') \<and>
   (event_name r = ''pull_request'' \<longrightarrow> \<not> step_runs generate_documentation r push_changes)"
proof -
  have runs: "step_runs generate_documentation r push_changes \<longleftrightarrow>
      event_name r = ''release'' \<or> event_name r = ''push''"
    by (simp add: step_runs_def push_changes_def plain_step_def release_or_push_iff)
  have "last (steps build) = push_changes"
    by (simp add: build_def)
  with runs find_push_changes show ?thesis
    by auto
qed

theorem push_changes_iff_release_or_push_witness:
  "event_name (pull_request_run ''9000'' ''fix-docs'' ''41'' []) = ''pull_request'' \<and>
   \<not> step_runs generate_documentation (pull_request_run ''9000'' ''fix-docs'' ''41'' [])
        push_changes \<and>
   step_runs generate_documentation (push_run ''main'' ''42'' ''t0k'') push_changes \<and>
   step_runs generate_documentation (release_run ''v0.14.2'' ''43'' ''t0k'') push_changes"
  using push_changes_iff_release_or_push [of "pull_request_run ''9000'' ''fix-docs'' ''41'' []"]
    push_changes_iff_release_or_push [of "push_run ''main'' ''42'' ''t0k''"]
    push_changes_iff_release_or_push [of "release_run ''v0.14.2'' ''43'' ''t0k''"]
  by (simp add: pull_request_run_def push_run_def release_run_def)

lemma pull_request_iff:
  "eval_b w r (event_name_is ''pull_request'') \<longleftrightarrow> event_name r = ''pull_request''"
  by (simp add: event_name_is_def lookup_def)

lemma runs_without_token:
  "step_runs w r checkout_without_token \<longleftrightarrow> event_name r = ''pull_request''"
  by (simp add: step_runs_def checkout_without_token_def plain_step_def pull_request_iff)

lemma runs_with_token:
  "step_runs w r checkout_with_token \<longleftrightarrow> event_name r = ''release'' \<or> event_name r = ''push''"
  by (simp add: step_runs_def checkout_with_token_def plain_step_def release_or_push_iff)

lemma runs_push_changes:
  "step_runs w r push_changes \<longleftrightarrow> event_name r = ''release'' \<or> event_name r = ''push''"
  by (simp add: step_runs_def push_changes_def plain_step_def release_or_push_iff)

lemma runs_unconditional:
  "step_runs w r checkout_step" "step_runs w r event_type_step" "step_runs w r install_pandoc"
  "step_runs w r install_graphviz" "step_runs w r set_up_python"
  "step_runs w r install_dependencies" "step_runs w r install_statsmodels"
  "step_runs w r build_documentation" "step_runs w r move_and_commit"
  by (simp_all add: step_runs_def step_defs)

lemmas runs_simps = runs_without_token runs_with_token runs_push_changes runs_unconditional

lemma executed_pull_request:
  "executed generate_documentation build (pull_request_run ''9000'' ''fix-docs'' ''41'' []) =
     [''Checkout'', ''Checkout statsmodels.github.io without token'', ''Event type'',
      ''Install pandoc'', ''Install graphviz'', ''Set up Python '', ''Install dependencies'',
      ''Install statsmodels'', ''Build documentation'', ''Move and commit documentation'']"
  by (simp add: executed_def build_def runs_simps pull_request_run_def label_simps)

lemma executed_push:
  "executed generate_documentation build (push_run ''main'' ''42'' ''t0k'') =
     [''Checkout'', ''Checkout statsmodels.github.io with token'', ''Event type'',
      ''Install pandoc'', ''Install graphviz'', ''Set up Python '', ''Install dependencies'',
      ''Install statsmodels'', ''Build documentation'', ''Move and commit documentation'',
      ''Push changes'']"
  by (simp add: executed_def build_def runs_simps push_run_def label_simps)

text \<open>
  C2, as the claim has it: the step \<^verbatim>\<open>Move and commit documentation\<close> would be held
  back on a pull request. The file gives the step no condition, and in the run of a pull
  request it is among the steps that run.
\<close>

theorem move_and_commit_runs_on_pull_request:
  "find_step build ''Move and commit documentation'' = Some move_and_commit \<and>
   event_name (pull_request_run ''9000'' ''fix-docs'' ''41'' []) = ''pull_request'' \<and>
   step_runs generate_documentation (pull_request_run ''9000'' ''fix-docs'' ''41'' [])
     move_and_commit \<and>
   ''Move and commit documentation'' \<in>
     set (executed generate_documentation build (pull_request_run ''9000'' ''fix-docs'' ''41'' []))"
  by (simp add: find_move_and_commit runs_unconditional executed_pull_request)
    (simp add: pull_request_run_def)

text \<open>
  C2, amended: the step \<^verbatim>\<open>Move and commit documentation\<close> carries no condition and is
  admitted on every event, pull requests included; the step restricted to release and
  push events is the one after it, \<^verbatim>\<open>Push changes\<close>, which publishes the commit.
\<close>

theorem move_and_commit_unconditional:
  "find_step build ''Move and commit documentation'' = Some move_and_commit \<and>
   cond move_and_commit = None \<and>
   step_runs generate_documentation r move_and_commit \<and>
   (step_runs generate_documentation r push_changes \<longleftrightarrow>
      event_name r = ''release'' \<or> event_name r = ''push'')"
  by (simp add: find_move_and_commit runs_unconditional runs_push_changes)
    (simp add: move_and_commit_def plain_step_def)

lemma supplied_token:
  "supplied [''secrets'', ''DOCBUILD_TOKEN''] checkout_step = []"
  "supplied [''secrets'', ''DOCBUILD_TOKEN''] checkout_without_token = []"
  "supplied [''secrets'', ''DOCBUILD_TOKEN''] checkout_with_token = [''token'']"
  "supplied [''secrets'', ''DOCBUILD_TOKEN''] event_type_step = []"
  "supplied [''secrets'', ''DOCBUILD_TOKEN''] install_pandoc = []"
  "supplied [''secrets'', ''DOCBUILD_TOKEN''] install_graphviz = []"
  "supplied [''secrets'', ''DOCBUILD_TOKEN''] set_up_python = []"
  "supplied [''secrets'', ''DOCBUILD_TOKEN''] install_dependencies = []"
  "supplied [''secrets'', ''DOCBUILD_TOKEN''] install_statsmodels = []"
  "supplied [''secrets'', ''DOCBUILD_TOKEN''] build_documentation = []"
  "supplied [''secrets'', ''DOCBUILD_TOKEN''] move_and_commit = []"
  "supplied [''secrets'', ''DOCBUILD_TOKEN''] push_changes = [''PERSONAL_ACCESS_TOKEN'']"
  by (simp_all add: supplied_def refs_t_def step_defs)

text \<open>
  C8. The second and third step of the job are the two checkouts of
  \<^verbatim>\<open>statsmodels.github.io\<close>. The one without token is admitted exactly on a pull
  request, the one with the token exactly on a release or a push, so on each of the three
  events exactly one of them runs. The checkout without token is handed no secret, and in
  the run of a pull request no step that is handed the secret runs at all.
\<close>

theorem docs_checkout_by_event:
  "take 2 (drop 1 (steps build)) = [checkout_without_token, checkout_with_token] \<and>
   (step_runs generate_documentation r checkout_without_token \<longleftrightarrow>
      event_name r = ''pull_request'') \<and>
   (step_runs generate_documentation r checkout_with_token \<longleftrightarrow>
      event_name r = ''release'' \<or> event_name r = ''push'') \<and>
   (event_name r \<in> {''pull_request'', ''push'', ''release''} \<longrightarrow>
      step_runs generate_documentation r checkout_without_token \<noteq>
      step_runs generate_documentation r checkout_with_token) \<and>
   supplied [''secrets'', ''DOCBUILD_TOKEN''] checkout_without_token = [] \<and>
   supplied [''secrets'', ''DOCBUILD_TOKEN''] checkout_with_token = [''token''] \<and>
   (event_name r = ''pull_request'' \<longrightarrow>
      filter (\<lambda>st. step_runs generate_documentation r st \<and>
                    supplied [''secrets'', ''DOCBUILD_TOKEN''] st \<noteq> []) (steps build) = [])"
proof -
  have position: "take 2 (drop 1 (steps build)) = [checkout_without_token, checkout_with_token]"
    by (simp add: build_def)
  have one: "step_runs generate_documentation r checkout_without_token \<noteq>
      step_runs generate_documentation r checkout_with_token"
    if "event_name r \<in> {''pull_request'', ''push'', ''release''}"
    using that by (auto simp add: runs_without_token runs_with_token)
  have none: "filter (\<lambda>st. step_runs generate_documentation r st \<and>
      supplied [''secrets'', ''DOCBUILD_TOKEN''] st \<noteq> []) (steps build) = []"
    if "event_name r = ''pull_request''"
    using that by (simp add: build_def runs_simps supplied_token)
  from position one none show ?thesis
    by (simp add: runs_without_token runs_with_token supplied_token)
qed

theorem docs_checkout_by_event_witness:
  "step_runs generate_documentation (pull_request_run ''9000'' ''fix-docs'' ''41'' [])
     checkout_without_token \<and>
   \<not> step_runs generate_documentation (pull_request_run ''9000'' ''fix-docs'' ''41'' [])
     checkout_with_token \<and>
   filter (\<lambda>st. step_runs generate_documentation
                   (pull_request_run ''9000'' ''fix-docs'' ''41'' []) st \<and>
                 supplied [''secrets'', ''DOCBUILD_TOKEN''] st \<noteq> []) (steps build) = [] \<and>
   step_runs generate_documentation (release_run ''v0.14.2'' ''43'' ''t0k'')
     checkout_with_token \<and>
   \<not> step_runs generate_documentation (release_run ''v0.14.2'' ''43'' ''t0k'')
     checkout_without_token"
  using docs_checkout_by_event [of "pull_request_run ''9000'' ''fix-docs'' ''41'' []"]
    docs_checkout_by_event [of "release_run ''v0.14.2'' ''43'' ''t0k''"]
  by (simp add: pull_request_run_def release_run_def)

section \<open>Concurrency\<close>

lemma concurrency_group_eq:
  "concurrency_group generate_documentation r =
     ''Generate Documentation-'' @ (if head_ref r \<noteq> [] then head_ref r else run_id r)"
  by (simp add: concurrency_group_def generate_documentation_def render_def lookup_def)

lemma cancel_enabled: "cancel_in_progress (wf_concurrency generate_documentation)"
  by (simp add: generate_documentation_def)

text \<open>
  C3, as the claim has it: two runs for pushes to the same ref would fall into the same
  group. A push has no head ref, so the group ends in the run id, and the runs 42 and 43
  for pushes to \<^verbatim>\<open>main\<close> are in different groups: the later one does not cancel the
  earlier one.
\<close>

theorem push_runs_of_one_ref_in_different_groups:
  "starts generate_documentation (push_run ''main'' ''42'' ''t0k'') \<and>
   starts generate_documentation (push_run ''main'' ''43'' ''t0k'') \<and>
   ref (push_run ''main'' ''43'' ''t0k'') = ref (push_run ''main'' ''42'' ''t0k'') \<and>
   concurrency_group generate_documentation (push_run ''main'' ''42'' ''t0k'') =
     ''Generate Documentation-42'' \<and>
   concurrency_group generate_documentation (push_run ''main'' ''43'' ''t0k'') =
     ''Generate Documentation-43'' \<and>
   \<not> cancels generate_documentation (push_run ''main'' ''43'' ''t0k'')
       (push_run ''main'' ''42'' ''t0k'')"
  by (simp add: cancels_def concurrency_group_eq)
    (simp add: push_run_def starts_def generate_documentation_def trigger_matches_def)

text \<open>
  C3, amended: cancel-in-progress is enabled and the group of a run is the name of the
  workflow followed by the head ref of the pull request or, where there is none (push and
  release runs), by the run id. So a newly queued run cancels the run in flight for the
  same pull-request head branch, while two runs without head ref, such as two pushes to
  one ref, share a group only if they have the same run id.
\<close>

theorem concurrency_group_by_head_ref_or_run_id:
  "cancel_in_progress (wf_concurrency generate_documentation) \<and>
   concurrency_group generate_documentation r =
     ''Generate Documentation-'' @ (if head_ref r \<noteq> [] then head_ref r else run_id r) \<and>
   (head_ref new \<noteq> [] \<and> head_ref new = head_ref old \<longrightarrow>
      cancels generate_documentation new old) \<and>
   (head_ref new = [] \<and> head_ref old = [] \<longrightarrow>
      (cancels generate_documentation new old \<longleftrightarrow> run_id new = run_id old))"
  by (simp add: cancels_def cancel_enabled concurrency_group_eq)

theorem concurrency_group_by_head_ref_or_run_id_witness:
  "cancels generate_documentation (pull_request_run ''9000'' ''fix-docs'' ''44'' [])
     (pull_request_run ''9000'' ''fix-docs'' ''41'' []) \<and>
   \<not> cancels generate_documentation (release_run ''v0.14.2'' ''46'' ''t0k'')
       (push_run ''main'' ''45'' ''t0k'')"
  using concurrency_group_by_head_ref_or_run_id
      [where new = "pull_request_run ''9000'' ''fix-docs'' ''44'' []"
         and old = "pull_request_run ''9000'' ''fix-docs'' ''41'' []"]
    concurrency_group_by_head_ref_or_run_id
      [where new = "release_run ''v0.14.2'' ''46'' ''t0k''"
         and old = "push_run ''main'' ''45'' ''t0k''"]
  by (simp add: pull_request_run_def push_run_def release_run_def)

section \<open>Triggers\<close>

text \<open>
  C4. The file lists three triggers, and an event starts the workflow if and only if it
  is a release with the activity type \<^verbatim>\<open>published\<close>, a push whose ref is the branch
  \<^verbatim>\<open>main\<close>, or a pull-request event. An event of another name, a release of another
  activity type and a push to another ref do not start it.
\<close>

theorem workflow_triggers:
  "map trig_event (on_events generate_documentation) = [''release'', ''push'', ''pull_request''] \<and>
   (starts generate_documentation r \<longleftrightarrow>
      event_name r = ''release'' \<and> action r = ''published'' \<or>
      event_name r = ''push'' \<and> ref r = ''refs/heads/main'' \<or>
      event_name r = ''pull_request'')"
  by (simp add: starts_def generate_documentation_def trigger_matches_def)

section \<open>The shape of the job\<close>

lemma conditional_steps:
  "map label (filter (\<lambda>st. cond st \<noteq> None) (steps build)) =
     [''Checkout statsmodels.github.io without token'',
      ''Checkout statsmodels.github.io with token'', ''Push changes'']"
  by (simp add: build_def label_def step_defs)

lemma no_failure_keys:
  "filter (\<lambda>st. continue_on_error st \<noteq> None) (steps build) = []"
  "filter (\<lambda>st. timeout_minutes st \<noteq> None) (steps build) = []"
  by (simp_all add: build_def step_defs)

text \<open>
  C5, as the claim has it: the steps would run one after the other with no branching. The
  job does branch on the event: the steps that run for a pull request are not the steps
  that run for a push. The pull request takes the checkout without token and stops before
  the push step; the push takes the checkout with the token and ends with the push step.
\<close>

theorem steps_run_depend_on_event:
  "executed generate_documentation build (pull_request_run ''9000'' ''fix-docs'' ''41'' []) =
     [''Checkout'', ''Checkout statsmodels.github.io without token'', ''Event type'',
      ''Install pandoc'', ''Install graphviz'', ''Set up Python '', ''Install dependencies'',
      ''Install statsmodels'', ''Build documentation'', ''Move and commit documentation''] \<and>
   executed generate_documentation build (push_run ''main'' ''42'' ''t0k'') =
     [''Checkout'', ''Checkout statsmodels.github.io with token'', ''Event type'',
      ''Install pandoc'', ''Install graphviz'', ''Set up Python '', ''Install dependencies'',
      ''Install statsmodels'', ''Build documentation'', ''Move and commit documentation'',
      ''Push changes''] \<and>
   executed generate_documentation build (pull_request_run ''9000'' ''fix-docs'' ''41'' []) \<noteq>
   executed generate_documentation build (push_run ''main'' ''42'' ''t0k'')"
  by (simp add: executed_pull_request executed_push)

text \<open>
  C5, amended: the job \<^verbatim>\<open>build\<close> is one list of twelve steps in which the checkout
  of the repository, the installation of the dependencies, the Sphinx build
  (\<^verbatim>\<open>make html\<close>), the commit of the documentation and its push come in this order. No
  step sets \<^verbatim>\<open>continue-on-error\<close> or a timeout. Three steps, the two checkouts of the
  documentation repository and the push, carry a condition, and each condition reads
  nothing but the name of the event.
\<close>

theorem build_steps_in_order:
  "map label (steps build) =
     [''Checkout'', ''Checkout statsmodels.github.io without token'',
      ''Checkout statsmodels.github.io with token'', ''Event type'', ''Install pandoc'',
      ''Install graphviz'', ''Set up Python '', ''Install dependencies'',
      ''Install statsmodels'', ''Build documentation'', ''Move and commit documentation'',
      ''Push changes''] \<and>
   subseq [''Checkout'', ''Install dependencies'', ''Build documentation'',
           ''Move and commit documentation'', ''Push changes''] (map label (steps build)) \<and>
   run build_documentation = Some [''pushd docs'', ''make html'', ''popd''] \<and>
   run move_and_commit = Some [''source tools/ci/docbuild-commit.sh''] \<and>
   run push_changes = Some [''source tools/ci/docbuild-push.sh''] \<and>
   filter (\<lambda>st. continue_on_error st \<noteq> None) (steps build) = [] \<and>
   filter (\<lambda>st. timeout_minutes st \<noteq> None) (steps build) = [] \<and>
   map label (filter (\<lambda>st. cond st \<noteq> None) (steps build)) =
     [''Checkout statsmodels.github.io without token'',
      ''Checkout statsmodels.github.io with token'', ''Push changes''] \<and>
   remdups (concat (map (\<lambda>st. case cond st of None \<Rightarrow> [] | Some c \<Rightarrow> refs_b c) (steps build))) =
     [[''github'', ''event_name'']]"
proof -
  have order: "subseq [''Checkout'', ''Install dependencies'', ''Build documentation'',
      ''Move and commit documentation'', ''Push changes''] (map label (steps build))"
    by (simp add: labels_build)
  have scripts: "run build_documentation = Some [''pushd docs'', ''make html'', ''popd'']"
    "run move_and_commit = Some [''source tools/ci/docbuild-commit.sh'']"
    "run push_changes = Some [''source tools/ci/docbuild-push.sh'']"
    by (simp_all add: step_defs)
  have reads: "remdups (concat (map (\<lambda>st. case cond st of None \<Rightarrow> [] | Some c \<Rightarrow> refs_b c)
      (steps build))) = [[''github'', ''event_name'']]"
    by (simp add: build_def step_defs release_or_push_def event_name_is_def)
  from labels_build order scripts no_failure_keys conditional_steps reads show ?thesis
    by blast
qed

text \<open>
  C7. No step of the job sets \<^verbatim>\<open>continue-on-error\<close> (or a timeout), the actions the
  steps use are the checkout and the three installers, none of which repeats a step, the
  inline scripts are plain command sequences, and the strategy of the job sets
  \<^verbatim>\<open>fail-fast\<close> to false. The conditions of the steps cannot ask for the status of
  earlier steps: they read the name of the event only.
\<close>

theorem no_custom_failure_handling:
  "jobs generate_documentation = [(''build'', build)] \<and>
   fail_fast build = Some False \<and>
   filter (\<lambda>st. continue_on_error st \<noteq> None) (steps build) = [] \<and>
   filter (\<lambda>st. timeout_minutes st \<noteq> None) (steps build) = [] \<and>
   remdups (map uses (steps build)) =
     [Some ''actions/checkout@v4'', Some ''r-lib/actions/setup-pandoc@v2'',
      Some ''ts-graphviz/setup-graphviz@v2'', Some ''actions/setup-python@v5'', None] \<and>
   concat (map (\<lambda>st. case run st of None \<Rightarrow> [] | Some ls \<Rightarrow> ls) (steps build)) =
     [''echo $EVENT_TYPE'',
      ''python -m pip install --upgrade pip wheel setuptools'',
      ''python -m pip install -r requirements.txt'',
      ''python -m pip install -r requirements-dev.txt'',
      ''python -m pip install -r requirements-doc.txt'',
      ''python -m pip list'',
      ''python -m pip install . -vv'',
      ''pushd docs'', ''make html'', ''popd'',
      ''source tools/ci/docbuild-commit.sh'',
      ''source tools/ci/docbuild-push.sh''] \<and>
   set (concat (map (\<lambda>st. case cond st of None \<Rightarrow> [] | Some c \<Rightarrow> refs_b c) (steps build))) =
     {[''github'', ''event_name'']}"
proof -
  have actions: "remdups (map uses (steps build)) =
     [Some ''actions/checkout@v4'', Some ''r-lib/actions/setup-pandoc@v2'',
      Some ''ts-graphviz/setup-graphviz@v2'', Some ''actions/setup-python@v5'', None]"
    by (simp add: build_def step_defs)
  have scripts: "concat (map (\<lambda>st. case run st of None \<Rightarrow> [] | Some ls \<Rightarrow> ls) (steps build)) =
     [''echo $EVENT_TYPE'',
      ''python -m pip install --upgrade pip wheel setuptools'',
      ''python -m pip install -r requirements.txt'',
      ''python -m pip install -r requirements-dev.txt'',
      ''python -m pip install -r requirements-doc.txt'',
      ''python -m pip list'',
      ''python -m pip install . -vv'',
      ''pushd docs'', ''make html'', ''popd'',
      ''source tools/ci/docbuild-commit.sh'',
      ''source tools/ci/docbuild-push.sh'']"
    by (simp add: build_def step_defs)
  have reads: "set (concat (map (\<lambda>st. case cond st of None \<Rightarrow> [] | Some c \<Rightarrow> refs_b c)
      (steps build))) = {[''github'', ''event_name'']}"
    by (simp add: build_def step_defs release_or_push_def event_name_is_def)
  have "jobs generate_documentation = [(''build'', build)]"
    by (simp add: generate_documentation_def)
  moreover have "fail_fast build = Some False"
    by (simp add: build_def)
  ultimately show ?thesis
    using no_failure_keys actions scripts reads by blast
qed

section \<open>What the workflow reads from its environment\<close>

text \<open>
  C6, as the claim has it: the secret and the tag of the release would be all that the
  steps are handed. The step \<^verbatim>\<open>Event type\<close> is handed the name of the event as the
  variable \<^verbatim>\<open>EVENT_TYPE\<close>, and the Python set-up is handed the matrix entry.
\<close>

theorem event_name_handed_to_a_step:
  "event_type_step \<in> set (steps build) \<and>
   env event_type_step = [(''EVENT_TYPE'', [Interp (Ctx [''github'', ''event_name''])])] \<and>
   concat (map step_inputs (steps build)) =
     [[''secrets'', ''DOCBUILD_TOKEN''], [''github'', ''event_name''],
      [''matrix'', ''python-version''], [''github'', ''event'', ''release'', ''tag_name''],
      [''secrets'', ''DOCBUILD_TOKEN'']] \<and>
   \<not> set (concat (map step_inputs (steps build))) \<subseteq>
       {[''secrets'', ''DOCBUILD_TOKEN''], [''github'', ''event'', ''release'', ''tag_name'']}"
proof -
  have inputs: "concat (map step_inputs (steps build)) =
     [[''secrets'', ''DOCBUILD_TOKEN''], [''github'', ''event_name''],
      [''matrix'', ''python-version''], [''github'', ''event'', ''release'', ''tag_name''],
      [''secrets'', ''DOCBUILD_TOKEN'']]"
    by (simp add: step_inputs_def build_def step_defs refs_t_def)
  have "event_type_step \<in> set (steps build)"
    by (simp add: build_def)
  moreover have "env event_type_step =
      [(''EVENT_TYPE'', [Interp (Ctx [''github'', ''event_name''])])]"
    by (simp add: event_type_step_def plain_step_def)
  ultimately show ?thesis
    by (simp add: inputs)
qed

text \<open>
  C6, amended: the workflow reads one secret, \<^verbatim>\<open>DOCBUILD_TOKEN\<close>, handed to the
  checkout with token (as \<^verbatim>\<open>token\<close>) and to the push step (as
  \<^verbatim>\<open>PERSONAL_ACCESS_TOKEN\<close>), and one field of the event payload, the tag name of the
  release, handed to the commit step as \<^verbatim>\<open>GIT_TAG\<close>. Besides these it reads the name
  of the event (in the conditions and as \<^verbatim>\<open>EVENT_TYPE\<close> of the step
  \<^verbatim>\<open>Event type\<close>), the name of the workflow, the head ref and the run id (in the
  concurrency group) and the Python version of the matrix.
\<close>

theorem workflow_reads:
  "suppliers [''secrets'', ''DOCBUILD_TOKEN''] build =
     [(''Checkout statsmodels.github.io with token'', [''token'']),
      (''Push changes'', [''PERSONAL_ACCESS_TOKEN''])] \<and>
   suppliers [''github'', ''event'', ''release'', ''tag_name''] build =
     [(''Move and commit documentation'', [''GIT_TAG''])] \<and>
   suppliers [''github'', ''event_name''] build = [(''Event type'', [''EVENT_TYPE''])] \<and>
   suppliers [''matrix'', ''python-version''] build = [(''Set up Python '', [''python-version''])] \<and>
   set (workflow_refs generate_documentation) =
     {[''secrets'', ''DOCBUILD_TOKEN''], [''github'', ''event'', ''release'', ''tag_name''],
      [''github'', ''event_name''], [''github'', ''workflow''], [''github'', ''head_ref''],
      [''github'', ''run_id''], [''matrix'', ''python-version'']}"
proof -
  have token: "suppliers [''secrets'', ''DOCBUILD_TOKEN''] build =
     [(''Checkout statsmodels.github.io with token'', [''token'']),
      (''Push changes'', [''PERSONAL_ACCESS_TOKEN''])]"
    by (simp add: suppliers_def supplied_def build_def step_defs refs_t_def label_def)
  have tag: "suppliers [''github'', ''event'', ''release'', ''tag_name''] build =
     [(''Move and commit documentation'', [''GIT_TAG''])]"
    by (simp add: suppliers_def supplied_def build_def step_defs refs_t_def label_def)
  have name: "suppliers [''github'', ''event_name''] build = [(''Event type'', [''EVENT_TYPE''])]"
    by (simp add: suppliers_def supplied_def build_def step_defs refs_t_def label_def)
  have version: "suppliers [''matrix'', ''python-version''] build =
      [(''Set up Python '', [''python-version''])]"
    by (simp add: suppliers_def supplied_def build_def step_defs refs_t_def label_def)
  have "workflow_refs generate_documentation =
     [[''github'', ''workflow''], [''github'', ''head_ref''], [''github'', ''run_id''],
      [''github'', ''event_name''], [''secrets'', ''DOCBUILD_TOKEN''],
      [''github'', ''event_name''], [''github'', ''event_name''], [''github'', ''event_name''],
      [''matrix'', ''python-version''], [''matrix'', ''python-version''],
      [''github'', ''event'', ''release'', ''tag_name''], [''secrets'', ''DOCBUILD_TOKEN''],
      [''github'', ''event_name''], [''github'', ''event_name'']]"
    by (simp add: workflow_refs_def generate_documentation_def build_def step_defs refs_t_def
        step_refs_def step_inputs_def release_or_push_def event_name_is_def)
  then have "set (workflow_refs generate_documentation) =
     {[''secrets'', ''DOCBUILD_TOKEN''], [''github'', ''event'', ''release'', ''tag_name''],
      [''github'', ''event_name''], [''github'', ''workflow''], [''github'', ''head_ref''],
      [''github'', ''run_id''], [''matrix'', ''python-version'']}"
    by auto
  with token tag name version show ?thesis
    by blast
qed

section \<open>The length of the simulated seasonal term\<close>

lemma length_harmonics_loop:
  "harmonics_loop m l n a b js x y g = (x', y', g') \<Longrightarrow> length x' = length x \<and> length y' = length y"
  by (induction js arbitrary: x y g) (auto simp: Let_def split: prod.splits)



lemma trunc_whole: "x = real_of_int (trunc x) \<longleftrightarrow> x \<in> \<int>"
  by (auto simp: trunc_def Ints_def)






lemma assert_fails_iff:
  "(\<exists>n. py_int v = Inr n \<and> \<not> eq_int v n) \<longleftrightarrow> (\<exists>x. v = PyFloat (Finite x) \<and> x \<notin> \<int>)"
proof (cases v)
  case (PyInt k)
  then show ?thesis by simp
next
  case (PyFloat f)
  then show ?thesis by (cases f) (simp_all add: trunc_whole)
qed





lemma float_product_cases:
  "fmul m x y = Finite z \<Longrightarrow> z \<in> \<int> \<Longrightarrow>
     checked_duration m (PyFloat x) (PyFloat y) = Inr (trunc z)"
  "fmul m x y = Finite z \<Longrightarrow> z \<notin> \<int> \<Longrightarrow>
     checked_duration m (PyFloat x) (PyFloat y) = Inl AssertionError"
  "fmul m x y = PosInf \<Longrightarrow> checked_duration m (PyFloat x) (PyFloat y) = Inl OverflowError"
  "fmul m x y = NegInf \<Longrightarrow> checked_duration m (PyFloat x) (PyFloat y) = Inl OverflowError"
  "fmul m x y = NaN \<Longrightarrow> checked_duration m (PyFloat x) (PyFloat y) = Inl ValueError"
  by (simp_all add: checked_duration_def trunc_whole)







end
